theory Spec2Isabelle
  imports Complex_Main "HOL-Library.Word"
begin

unbundle bit_operations_syntax

section \<open>Compile-time constants (main.cpp, lines 10 to 12)\<close>

definition WIDTH :: int where
  "WIDTH = 3200"

definition HEIGHT :: int where
  "HEIGHT = 2400"

definition WORKGROUP_SIZE :: int where
  "WORKGROUP_SIZE = 32"

section \<open>The Vulkan data the program builds\<close>

text \<open>
  \<open>VkResult\<close> is a C enumeration with negative error codes; \<open>VK_SUCCESS\<close> is 0.
  The numeric values below are those of the Vulkan headers the program includes.
\<close>

type_synonym VkResult = int

definition VK_SUCCESS :: VkResult where
  "VK_SUCCESS = 0"

definition VK_ERROR_OUT_OF_DEVICE_MEMORY :: VkResult where
  "VK_ERROR_OUT_OF_DEVICE_MEMORY = - 2"


datatype VkStructureType =
    VK_STRUCTURE_TYPE_BUFFER_CREATE_INFO
  | VK_STRUCTURE_TYPE_MEMORY_ALLOCATE_INFO
  | VK_STRUCTURE_TYPE_DESCRIPTOR_SET_LAYOUT_CREATE_INFO
  | VK_STRUCTURE_TYPE_DESCRIPTOR_POOL_CREATE_INFO
  | VK_STRUCTURE_TYPE_DESCRIPTOR_SET_ALLOCATE_INFO
  | VK_STRUCTURE_TYPE_WRITE_DESCRIPTOR_SET

datatype VkDescriptorType =
    VK_DESCRIPTOR_TYPE_STORAGE_BUFFER
  | VK_DESCRIPTOR_TYPE_UNIFORM_BUFFER

datatype VkSharingMode =
    VK_SHARING_MODE_EXCLUSIVE
  | VK_SHARING_MODE_CONCURRENT

definition VK_BUFFER_USAGE_UNIFORM_BUFFER_BIT :: "32 word" where
  "VK_BUFFER_USAGE_UNIFORM_BUFFER_BIT = 0x10"

definition VK_MEMORY_PROPERTY_DEVICE_LOCAL_BIT :: "32 word" where
  "VK_MEMORY_PROPERTY_DEVICE_LOCAL_BIT = 0x1"

definition VK_MEMORY_PROPERTY_HOST_VISIBLE_BIT :: "32 word" where
  "VK_MEMORY_PROPERTY_HOST_VISIBLE_BIT = 0x2"

definition VK_MEMORY_PROPERTY_HOST_COHERENT_BIT :: "32 word" where
  "VK_MEMORY_PROPERTY_HOST_COHERENT_BIT = 0x4"

definition VK_SHADER_STAGE_COMPUTE_BIT :: "32 word" where
  "VK_SHADER_STAGE_COMPUTE_BIT = 0x20"

text \<open>
  The handle-typed members of \<open>ComputeApplication\<close> that the methods shown in main.cpp
  pass to Vulkan. A handle is named by the member that holds it. The \<open>device\<close> handle and
  the \<open>NULL\<close> allocator, which every call receives unchanged, are left out of the calls.
\<close>

datatype handle =
    buffer
  | bufferMemory
  | seedBuffer
  | seedBufferMemory
  | descriptorPool
  | descriptorSet
  | descriptorSetLayout

text \<open>
  The structures are records of the members the source assigns; the members that the
  \<open>= {}\<close> initialiser leaves zero (\<open>pNext\<close>, \<open>flags\<close>, \<open>pImmutableSamplers\<close>, ...) are
  not listed. An array passed by pointer is a list.
\<close>

record VkBufferCreateInfo =
  bci_sType :: VkStructureType
  bci_size :: "64 word"
  bci_usage :: "32 word"
  bci_sharingMode :: VkSharingMode

record VkMemoryRequirements =
  mr_size :: "64 word"
  mr_alignment :: "64 word"
  mr_memoryTypeBits :: "32 word"

record VkMemoryAllocateInfo =
  mai_sType :: VkStructureType
  mai_allocationSize :: "64 word"
  mai_memoryTypeIndex :: "32 word"

record VkDescriptorSetLayoutBinding =
  binding :: "32 word"
  descriptorType :: VkDescriptorType
  descriptorCount :: "32 word"
  stageFlags :: "32 word"

record VkDescriptorSetLayoutCreateInfo =
  lci_sType :: VkStructureType
  bindingCount :: "32 word"
  pBindings :: "VkDescriptorSetLayoutBinding list"

record VkDescriptorPoolSize =
  ps_type :: VkDescriptorType
  ps_descriptorCount :: "32 word"

record VkDescriptorPoolCreateInfo =
  pci_sType :: VkStructureType
  maxSets :: "32 word"
  poolSizeCount :: "32 word"
  pPoolSizes :: "VkDescriptorPoolSize list"

record VkDescriptorSetAllocateInfo =
  sai_sType :: VkStructureType
  sai_descriptorPool :: handle
  descriptorSetCount :: "32 word"
  pSetLayouts :: "handle list"

record VkDescriptorBufferInfo =
  bi_buffer :: handle
  bi_offset :: "64 word"
  bi_range :: "64 word"

record VkWriteDescriptorSet =
  w_sType :: VkStructureType
  dstSet :: handle
  dstBinding :: "32 word"
  dstArrayElement :: "32 word"
  w_descriptorType :: VkDescriptorType
  w_descriptorCount :: "32 word"
  pBufferInfo :: VkDescriptorBufferInfo

text \<open>
  The Vulkan entry points. The first ten are the calls of the methods shown in main.cpp,
  with the arguments the program passes (an output handle is named by the member it is
  stored in). The last three stand for the recording, submission and completion wait of
  the dispatch, which main.cpp elides; they occur only in the elided methods.
\<close>

datatype vk_call =
    vkCreateBuffer VkBufferCreateInfo handle
  | vkGetBufferMemoryRequirements handle
  | vkAllocateMemory VkMemoryAllocateInfo handle
  | vkBindBufferMemory handle handle "64 word"
  | vkCreateDescriptorSetLayout VkDescriptorSetLayoutCreateInfo handle
  | vkCreateDescriptorPool VkDescriptorPoolCreateInfo handle
  | vkAllocateDescriptorSets VkDescriptorSetAllocateInfo handle
  | vkUpdateDescriptorSets "32 word" "VkWriteDescriptorSet list" "32 word"
  | vkMapMemory handle "64 word" "64 word" "32 word"
  | vkUnmapMemory handle
  | vkCmdDispatch "32 word" "32 word" "32 word"
  | vkQueueSubmit
  | vkWaitForCompletion

section \<open>Processes: outcomes and the trace of observable events\<close>

text \<open>
  The destination of the \<open>memcpy\<close> in \<open>runCommandBuffer\<close> is the pointer that
  \<open>vkMapMemory\<close> stores in \<open>data\<close>: a mapping of a memory object at an offset when the
  call succeeds, and an indeterminate value otherwise (\<open>data\<close> is not initialised and
  the result of \<open>vkMapMemory\<close> is not checked).
\<close>

datatype host_ptr = Mapped handle "64 word" | Indeterminate

datatype printf_arg = ArgInt int | ArgStr string

text \<open>
  What a run does that can be observed from outside: Vulkan calls, readings of the
  high-resolution clock (with the tick count read), \<open>printf\<close> output (format and
  arguments) and the \<open>memcpy\<close> into mapped memory (destination, the 32-bit object copied
  from, number of bytes).
\<close>

datatype event =
    Vk vk_call
  | ClockNow "64 word"
  | Printf string "printf_arg list"
  | Memcpy host_ptr "32 word" nat

text \<open>
  The type of a thrown object, as far as a handler can tell: the name of the type and the
  names of all its unambiguous public base classes (direct and indirect; none for a type
  that is not a class, and a base inherited privately is not among them). Any type can be
  described, whether the standard library declares it or the program does.
\<close>

datatype cpp_type = Cpp_type (type_name: string) (unambiguous_public_bases: "string list")

record cpp_exception =
  ex_type :: cpp_type
  what :: string

text \<open>
  A handler \<open>catch (const T&)\<close> is a match for an exception object of type \<open>E\<close> when
  \<open>T\<close> is \<open>E\<close> or \<open>T\<close> is an unambiguous public base class of \<open>E\<close>.
\<close>

definition handler_matches :: "string \<Rightarrow> cpp_type \<Rightarrow> bool" where
  "handler_matches T E \<longleftrightarrow> type_name E = T \<or> T \<in> set (unambiguous_public_bases E)"

text \<open>
  A piece of code either returns a value, throws, or ends the process through \<open>abort()\<close>
  (a failed \<open>assert\<close>). In each case it has produced a list of events, oldest first.
\<close>

datatype 'a outcome = Normal 'a | Throw cpp_exception | Abort

type_synonym 'a proc = "'a outcome \<times> event list"

definition return_p :: "'a \<Rightarrow> 'a proc" where
  "return_p a = (Normal a, [])"

definition emit :: "event \<Rightarrow> unit proc" where
  "emit e = (Normal (), [e])"

definition abort_p :: "'a proc" where
  "abort_p = (Abort, [])"

definition throw_p :: "cpp_exception \<Rightarrow> 'a proc" where
  "throw_p x = (Throw x, [])"

text \<open>Sequencing: the second part runs only when the first returns.\<close>

fun bind_p :: "'a proc \<Rightarrow> ('a \<Rightarrow> 'b proc) \<Rightarrow> 'b proc" where
  "bind_p (Normal a, es) f = (case f a of (r, es') \<Rightarrow> (r, es @ es'))"
| "bind_p (Throw x, es) f = (Throw x, es)"
| "bind_p (Abort, es) f = (Abort, es)"

fun seq :: "unit proc list \<Rightarrow> unit proc" where
  "seq [] = return_p ()"
| "seq (p # ps) = bind_p p (\<lambda>_. seq ps)"

section \<open>The environment of a run\<close>

text \<open>
  main.cpp shows five methods of \<open>ComputeApplication\<close> and elides the rest
  (\<open>// Other methods omitted for brevity...\<close>, \<open>// Other command buffer
  operations...\<close>). Eight elided methods that \<open>run\<close> calls and the elided rest of
  \<open>runCommandBuffer\<close> are parameters of the model: each is a process of its own, with
  any outcome and any events; they are taken to leave the members \<open>bufferSize\<close> and
  \<open>seedBufferSize\<close> as they are. The elided \<open>findMemoryType\<close> is modelled further
  down.
\<close>

datatype omitted_method =
    createInstance
  | findPhysicalDevice
  | createDevice
  | createBuffer
  | createComputePipeline
  | createCommandBuffer
  | otherCommandBufferOperations
  | saveRenderedImage
  | cleanup

text \<open>
  Everything a run depends on and the program does not decide: whether the build defines
  \<open>NDEBUG\<close>, the status the driver returns for each call, the memory requirements it
  reports for a buffer, the property flags of the device's memory types in the order the
  hardware reports them, the tick count of the high-resolution clock when it is read, and
  the elided methods.
\<close>

record world =
  NDEBUG :: bool
  vkResultOf :: "vk_call \<Rightarrow> VkResult"
  memoryRequirements :: "handle \<Rightarrow> VkMemoryRequirements"
  memoryTypes :: "32 word list"
  clock_count :: "64 word"
  omitted :: "omitted_method \<Rightarrow> unit proc"

definition call :: "world \<Rightarrow> vk_call \<Rightarrow> VkResult proc" where
  "call E c = (Normal (vkResultOf E c), [Vk c])"

definition call_void :: "vk_call \<Rightarrow> unit proc" where
  "call_void c = (Normal (), [Vk c])"

section \<open>\<open>VK_CHECK_RESULT\<close> (main.cpp, lines 21 to 29)\<close>

definition FILE :: string where
  "FILE = ''src/main.cpp''"

text \<open>
  \<open>assert(c)\<close> expands to nothing when \<open>NDEBUG\<close> is defined; otherwise a false
  condition ends the process through \<open>abort()\<close>.
\<close>

definition assert_c :: "bool \<Rightarrow> bool \<Rightarrow> unit proc" where
  "assert_c ndebug c = (if ndebug then return_p () else if c then return_p () else abort_p)"

text \<open>
  The macro evaluates the wrapped call \<open>f\<close> once; \<open>line\<close> is the value of \<open>__LINE__\<close>
  where the macro is used.
\<close>

definition VK_CHECK_RESULT :: "bool \<Rightarrow> nat \<Rightarrow> VkResult proc \<Rightarrow> unit proc" where
  "VK_CHECK_RESULT ndebug line f =
     bind_p f (\<lambda>res.
       if res \<noteq> VK_SUCCESS then
         bind_p (emit (Printf ''Fatal: VkResult is %d in %s at line %d\<newline>''
                         [ArgInt res, ArgStr FILE, ArgInt (int line)]))
           (\<lambda>_. assert_c ndebug (res = VK_SUCCESS))
       else return_p ())"

section \<open>\<open>generateSeed\<close> (main.cpp, lines 31 to 33)\<close>

text \<open>
  \<open>time_since_epoch().count()\<close> is the clock's tick count, a signed 64-bit integer; the
  function returns it as \<open>uint32_t\<close>, so the conversion keeps the low 32 bits. The clock
  reading is the input of the model; reading the clock is an event.
\<close>

definition high_resolution_clock_now :: "world \<Rightarrow> (64 word) proc" where
  "high_resolution_clock_now E = (Normal (clock_count E), [ClockNow (clock_count E)])"

definition generateSeed :: "64 word \<Rightarrow> 32 word" where
  "generateSeed count = ucast count"

section \<open>\<open>ComputeApplication\<close> (main.cpp, lines 35 to 189)\<close>

definition sizeof_float :: nat where
  "sizeof_float = 4"

definition sizeof_uint32_t :: nat where
  "sizeof_uint32_t = 4"

text \<open>\<open>struct Pixel { float r, g, b, a; }\<close>: four members of the same type, no padding.\<close>

definition sizeof_Pixel :: nat where
  "sizeof_Pixel = 4 * sizeof_float"

text \<open>The two members of the class that are not handles.\<close>

record ComputeApplication =
  bufferSize :: "32 word"
  seedBufferSize :: "32 word"

text \<open>
  \<open>ComputeApplication app;\<close> runs the default member initialiser of \<open>seedBufferSize\<close> and
  leaves \<open>bufferSize\<close> with an indeterminate value \<open>u\<close>.
\<close>

definition new_ComputeApplication :: "32 word \<Rightarrow> ComputeApplication" where
  "new_ComputeApplication u = \<lparr>bufferSize = u, seedBufferSize = word_of_nat sizeof_uint32_t\<rparr>"

text \<open>
  Line 67: \<open>bufferSize = sizeof(Pixel) * WIDTH * HEIGHT\<close>; the product is computed in
  \<open>size_t\<close> and stored in a \<open>uint32_t\<close>, which keeps it modulo \<open>2 ^ 32\<close>.
\<close>

definition run_bufferSize :: "32 word" where
  "run_bufferSize = word_of_int (int sizeof_Pixel * WIDTH * HEIGHT)"

subsection \<open>The memory-type search\<close>

text \<open>
  Modelled from the spec: \<open>findMemoryType\<close>, which \<open>createSeedBuffer\<close> calls at line 97, is
  not in main.cpp. The specification (4.2) describes it: the first index, in
  hardware-reported order, whose type bit is set and whose property flags are a superset of
  the requested flags; it fails fatally if no matching type exists.
\<close>

fun findMemoryType_from :: "nat \<Rightarrow> 32 word list \<Rightarrow> 32 word \<Rightarrow> 32 word \<Rightarrow> nat option" where
  "findMemoryType_from i [] typeBits properties = None"
| "findMemoryType_from i (flags # rest) typeBits properties =
     (if bit typeBits i \<and> (flags AND properties) = properties then Some i
      else findMemoryType_from (Suc i) rest typeBits properties)"

definition findMemoryType :: "world \<Rightarrow> 32 word \<Rightarrow> 32 word \<Rightarrow> nat proc" where
  "findMemoryType E typeBits properties =
     (case findMemoryType_from 0 (memoryTypes E) typeBits properties of
        Some i \<Rightarrow> return_p i
      | None \<Rightarrow> abort_p)"

subsection \<open>\<open>createSeedBuffer\<close> (lines 82 to 102)\<close>

definition createSeedBuffer :: "world \<Rightarrow> ComputeApplication \<Rightarrow> unit proc" where
  "createSeedBuffer E app =
     (let bufferCreateInfo =
            \<lparr>bci_sType = VK_STRUCTURE_TYPE_BUFFER_CREATE_INFO,
             bci_size = ucast (seedBufferSize app),
             bci_usage = VK_BUFFER_USAGE_UNIFORM_BUFFER_BIT,
             bci_sharingMode = VK_SHARING_MODE_EXCLUSIVE\<rparr>
      in bind_p (VK_CHECK_RESULT (NDEBUG E) 89 (call E (vkCreateBuffer bufferCreateInfo seedBuffer)))
        (\<lambda>_. bind_p (call_void (vkGetBufferMemoryRequirements seedBuffer))
        (\<lambda>_. let memRequirements = memoryRequirements E seedBuffer
              in bind_p (findMemoryType E (mr_memoryTypeBits memRequirements)
                           (VK_MEMORY_PROPERTY_HOST_VISIBLE_BIT OR VK_MEMORY_PROPERTY_HOST_COHERENT_BIT))
        (\<lambda>idx. let allocInfo =
                     \<lparr>mai_sType = VK_STRUCTURE_TYPE_MEMORY_ALLOCATE_INFO,
                      mai_allocationSize = mr_size memRequirements,
                      mai_memoryTypeIndex = word_of_nat idx\<rparr>
                in bind_p (VK_CHECK_RESULT (NDEBUG E) 100 (call E (vkAllocateMemory allocInfo seedBufferMemory)))
        (\<lambda>_. VK_CHECK_RESULT (NDEBUG E) 101 (call E (vkBindBufferMemory seedBuffer seedBufferMemory 0)))))))"

subsection \<open>\<open>createDescriptorSetLayout\<close> (lines 104 to 122)\<close>

definition layout_bindings :: "VkDescriptorSetLayoutBinding list" where
  "layout_bindings =
     [\<lparr>binding = 0, descriptorType = VK_DESCRIPTOR_TYPE_STORAGE_BUFFER,
       descriptorCount = 1, stageFlags = VK_SHADER_STAGE_COMPUTE_BIT\<rparr>,
      \<lparr>binding = 1, descriptorType = VK_DESCRIPTOR_TYPE_UNIFORM_BUFFER,
       descriptorCount = 1, stageFlags = VK_SHADER_STAGE_COMPUTE_BIT\<rparr>]"

definition createDescriptorSetLayout :: "world \<Rightarrow> ComputeApplication \<Rightarrow> unit proc" where
  "createDescriptorSetLayout E app =
     (let bindings = layout_bindings;
          layoutInfo =
            \<lparr>lci_sType = VK_STRUCTURE_TYPE_DESCRIPTOR_SET_LAYOUT_CREATE_INFO,
             bindingCount = 2,
             pBindings = bindings\<rparr>
      in VK_CHECK_RESULT (NDEBUG E) 121
           (call E (vkCreateDescriptorSetLayout layoutInfo descriptorSetLayout)))"

subsection \<open>\<open>createDescriptorSet\<close> (lines 124 to 176)\<close>

definition descriptor_writes :: "ComputeApplication \<Rightarrow> VkWriteDescriptorSet list" where
  "descriptor_writes app =
     (let bufferInfo =
            \<lparr>bi_buffer = buffer, bi_offset = 0, bi_range = ucast (bufferSize app)\<rparr>;
          seedBufferInfo =
            \<lparr>bi_buffer = seedBuffer, bi_offset = 0, bi_range = ucast (seedBufferSize app)\<rparr>
      in [\<lparr>w_sType = VK_STRUCTURE_TYPE_WRITE_DESCRIPTOR_SET,
            dstSet = descriptorSet,
            dstBinding = 0,
            dstArrayElement = 0,
            w_descriptorType = VK_DESCRIPTOR_TYPE_STORAGE_BUFFER,
            w_descriptorCount = 1,
            pBufferInfo = bufferInfo\<rparr>,
          \<lparr>w_sType = VK_STRUCTURE_TYPE_WRITE_DESCRIPTOR_SET,
            dstSet = descriptorSet,
            dstBinding = 1,
            dstArrayElement = 0,
            w_descriptorType = VK_DESCRIPTOR_TYPE_UNIFORM_BUFFER,
            w_descriptorCount = 1,
            pBufferInfo = seedBufferInfo\<rparr>])"

definition createDescriptorSet :: "world \<Rightarrow> ComputeApplication \<Rightarrow> unit proc" where
  "createDescriptorSet E app =
     (let poolSizes =
            [\<lparr>ps_type = VK_DESCRIPTOR_TYPE_STORAGE_BUFFER, ps_descriptorCount = 1\<rparr>,
             \<lparr>ps_type = VK_DESCRIPTOR_TYPE_UNIFORM_BUFFER, ps_descriptorCount = 1\<rparr>];
          poolInfo =
            \<lparr>pci_sType = VK_STRUCTURE_TYPE_DESCRIPTOR_POOL_CREATE_INFO,
             maxSets = 1,
             poolSizeCount = 2,
             pPoolSizes = poolSizes\<rparr>
      in bind_p (VK_CHECK_RESULT (NDEBUG E) 137 (call E (vkCreateDescriptorPool poolInfo descriptorPool)))
        (\<lambda>_. let allocInfo =
                    \<lparr>sai_sType = VK_STRUCTURE_TYPE_DESCRIPTOR_SET_ALLOCATE_INFO,
                     sai_descriptorPool = descriptorPool,
                     descriptorSetCount = 1,
                     pSetLayouts = [descriptorSetLayout]\<rparr>
              in bind_p (VK_CHECK_RESULT (NDEBUG E) 145 (call E (vkAllocateDescriptorSets allocInfo descriptorSet)))
        (\<lambda>_. let descriptorWrites = descriptor_writes app
              in call_void (vkUpdateDescriptorSets 2 descriptorWrites 0))))"

subsection \<open>\<open>runCommandBuffer\<close> (lines 178 to 186)\<close>

text \<open>
  The seed is generated and copied into the mapped seed memory; the rest of the method is
  elided in main.cpp and is the parameter \<open>otherCommandBufferOperations\<close>.
\<close>

definition runCommandBuffer :: "world \<Rightarrow> ComputeApplication \<Rightarrow> unit proc" where
  "runCommandBuffer E app =
     bind_p (high_resolution_clock_now E)
       (\<lambda>ticks. let newSeed = generateSeed ticks
                 in bind_p (call E (vkMapMemory seedBufferMemory 0 (ucast (seedBufferSize app)) 0))
       (\<lambda>res. let data = (if res = VK_SUCCESS then Mapped seedBufferMemory 0 else Indeterminate)
               in bind_p (emit (Memcpy data newSeed (unat (seedBufferSize app))))
       (\<lambda>_. bind_p (call_void (vkUnmapMemory seedBufferMemory))
       (\<lambda>_. omitted E otherCommandBufferOperations))))"

subsection \<open>\<open>run\<close> (lines 66 to 80)\<close>

text \<open>
  The method assigns the member \<open>bufferSize\<close> and then calls the other methods in turn. The
  result is the object as the method leaves it, together with the outcome and the events.
\<close>

definition run :: "world \<Rightarrow> ComputeApplication \<Rightarrow> ComputeApplication \<times> unit proc" where
  "run E app0 =
     (let app = app0\<lparr>bufferSize := run_bufferSize\<rparr>
      in (app,
          seq [omitted E createInstance,
               omitted E findPhysicalDevice,
               omitted E createDevice,
               omitted E createBuffer,
               createSeedBuffer E app,
               createDescriptorSetLayout E app,
               createDescriptorSet E app,
               omitted E createComputePipeline,
               omitted E createCommandBuffer,
               runCommandBuffer E app,
               omitted E saveRenderedImage,
               omitted E cleanup]))"

section \<open>\<open>main\<close> (lines 191 to 200)\<close>

definition EXIT_SUCCESS :: int where
  "EXIT_SUCCESS = 0"

definition EXIT_FAILURE :: int where
  "EXIT_FAILURE = 1"

text \<open>
  How the process ends: \<open>main\<close> returns a status, or an exception leaves \<open>main\<close>
  (\<open>std::terminate\<close>), or \<open>abort()\<close> was called.
\<close>

datatype process_end = Exit int | Terminate cpp_exception | Aborted

definition main :: "world \<Rightarrow> 32 word \<Rightarrow> process_end \<times> event list" where
  "main E u =
     (case snd (run E (new_ComputeApplication u)) of
        (Normal _, es) \<Rightarrow> (Exit EXIT_SUCCESS, es)
      | (Throw e, es) \<Rightarrow>
          (if handler_matches ''std::runtime_error'' (ex_type e)
           then (Exit EXIT_FAILURE, es @ [Printf ''%s\<newline>'' [ArgStr (what e)]])
           else (Terminate e, es))
      | (Abort, es) \<Rightarrow> (Aborted, es))"

section \<open>The dispatch, as the specification describes it\<close>

text \<open>
  Modelled from the spec: the recording of the dispatch is not in main.cpp, which only
  declares \<open>WIDTH\<close>, \<open>HEIGHT\<close> and \<open>WORKGROUP_SIZE\<close>. The specification (4.5) gives the
  workgroup counts: ceil(width / workgroupSize) by ceil(height / workgroupSize).
\<close>

definition groupCount :: "int \<Rightarrow> int" where
  "groupCount n = \<lceil>real_of_int n / real_of_int WORKGROUP_SIZE\<rceil>"

definition dispatchGroups :: "int \<Rightarrow> int \<Rightarrow> int \<times> int" where
  "dispatchGroups width height = (groupCount width, groupCount height)"

text \<open>
  Modelled from the spec: the elided rest of \<open>runCommandBuffer\<close>, as the specification
  (4.5) describes the dispatcher after the seed upload: one dispatch with the workgroup
  counts above, the submission, and the wait for completion.
\<close>

definition spec_otherCommandBufferOperations :: "unit proc" where
  "spec_otherCommandBufferOperations =
     seq [call_void (vkCmdDispatch (word_of_int (fst (dispatchGroups WIDTH HEIGHT)))
                                   (word_of_int (snd (dispatchGroups WIDTH HEIGHT))) 1),
          call_void vkQueueSubmit,
          call_void vkWaitForCompletion]"

section \<open>Example environments\<close>

text \<open>
  A debug build on a device with three memory types where every call succeeds, the elided
  methods make no observable call except the dispatcher of the specification, and the
  clock reads 1730000000000001000 ticks.
\<close>

definition example_world :: world where
  "example_world =
     \<lparr>NDEBUG = False,
      vkResultOf = (\<lambda>_. VK_SUCCESS),
      memoryRequirements = (\<lambda>_. \<lparr>mr_size = 256, mr_alignment = 256, mr_memoryTypeBits = 0x6\<rparr>),
      memoryTypes = [VK_MEMORY_PROPERTY_DEVICE_LOCAL_BIT,
                     VK_MEMORY_PROPERTY_HOST_VISIBLE_BIT OR VK_MEMORY_PROPERTY_HOST_COHERENT_BIT,
                     VK_MEMORY_PROPERTY_DEVICE_LOCAL_BIT OR VK_MEMORY_PROPERTY_HOST_VISIBLE_BIT
                       OR VK_MEMORY_PROPERTY_HOST_COHERENT_BIT],
      clock_count = 1730000000000001000,
      omitted = (\<lambda>m. if m = otherCommandBufferOperations
                      then spec_otherCommandBufferOperations else return_p ())\<rparr>"

text \<open>
  The same device in a release build (\<open>NDEBUG\<close> defined) where the driver refuses to
  create a buffer: \<open>vkCreateBuffer\<close> returns \<open>VK_ERROR_OUT_OF_DEVICE_MEMORY\<close>.
\<close>

definition release_world_out_of_memory :: world where
  "release_world_out_of_memory =
     example_world
       \<lparr>NDEBUG := True,
        vkResultOf := (\<lambda>c. case c of vkCreateBuffer info h \<Rightarrow> VK_ERROR_OUT_OF_DEVICE_MEMORY
                               | _ \<Rightarrow> VK_SUCCESS)\<rparr>"


text \<open>
  Types of exceptions: three classes of the standard library, a class that a program
  declares as \<open>class DeviceLost : public std::runtime_error\<close>, a class that inherits
  \<open>std::runtime_error\<close> privately, and \<open>int\<close>.
\<close>

definition std_runtime_error :: cpp_type where
  "std_runtime_error = Cpp_type ''std::runtime_error'' [''std::exception'']"

definition std_overflow_error :: cpp_type where
  "std_overflow_error =
     Cpp_type ''std::overflow_error'' [''std::runtime_error'', ''std::exception'']"

definition std_logic_error :: cpp_type where
  "std_logic_error = Cpp_type ''std::logic_error'' [''std::exception'']"

definition DeviceLost :: cpp_type where
  "DeviceLost = Cpp_type ''DeviceLost'' [''std::runtime_error'', ''std::exception'']"

definition PrivatelyDerived :: cpp_type where
  "PrivatelyDerived = Cpp_type ''PrivatelyDerived'' []"

definition int_type :: cpp_type where
  "int_type = Cpp_type ''int'' []"

text \<open>
  The example environment where the elided \<open>findPhysicalDevice\<close> throws an exception of
  the given type.
\<close>

definition throwing_world :: "cpp_type \<Rightarrow> world" where
  "throwing_world t =
     example_world
       \<lparr>omitted := (\<lambda>m. if m = findPhysicalDevice
                         then throw_p \<lparr>ex_type = t, what = ''could not find a device''\<rparr>
                         else omitted example_world m)\<rparr>"

section \<open>Predicates on events and processes\<close>

fun is_clock_read :: "event \<Rightarrow> bool" where
  "is_clock_read (ClockNow t) = True"
| "is_clock_read e = False"

fun is_dispatch_or_submit :: "event \<Rightarrow> bool" where
  "is_dispatch_or_submit (Vk (vkCmdDispatch x y z)) = True"
| "is_dispatch_or_submit (Vk vkQueueSubmit) = True"
| "is_dispatch_or_submit e = False"

fun is_descriptor_update :: "event \<Rightarrow> bool" where
  "is_descriptor_update (Vk (vkUpdateDescriptorSets n ws c)) = True"
| "is_descriptor_update e = False"

definition all_events :: "(event \<Rightarrow> bool) \<Rightarrow> 'a proc \<Rightarrow> bool" where
  "all_events P p \<longleftrightarrow> (\<forall>e \<in> set (snd p). P e)"

text \<open>
  A memory type qualifies for a request when its index is one the device reports, its bit
  is set in the type bitmask, and its property flags contain every requested flag.
\<close>

definition qualifies :: "world \<Rightarrow> 32 word \<Rightarrow> 32 word \<Rightarrow> nat \<Rightarrow> bool" where
  "qualifies E typeBits properties i \<longleftrightarrow>
     i < length (memoryTypes E) \<and> bit typeBits i \<and>
     (memoryTypes E ! i AND properties) = properties"

text \<open>The methods that \<open>run\<close> calls before \<open>runCommandBuffer\<close>, in order.\<close>

definition setup_methods :: "world \<Rightarrow> ComputeApplication \<Rightarrow> unit proc list" where
  "setup_methods E app =
     [omitted E createInstance, omitted E findPhysicalDevice, omitted E createDevice,
      omitted E createBuffer, createSeedBuffer E app, createDescriptorSetLayout E app,
      createDescriptorSet E app, omitted E createComputePipeline, omitted E createCommandBuffer]"

section \<open>Sequencing laws\<close>

lemma bind_p_Normal: "fst p = Normal a \<Longrightarrow> bind_p p f = (fst (f a), snd p @ snd (f a))"
  by (cases p) (simp split: prod.splits)

lemma bind_p_Throw: "fst p = Throw x \<Longrightarrow> bind_p p f = (Throw x, snd p)"
  by (cases p) simp

lemma bind_p_Abort: "fst p = Abort \<Longrightarrow> bind_p p f = (Abort, snd p)"
  by (cases p) simp

lemma bind_p_return [simp]: "bind_p (return_p a) f = f a"
  by (simp add: return_p_def split: prod.splits)

lemma bind_p_assoc: "bind_p (bind_p p f) g = bind_p p (\<lambda>a. bind_p (f a) g)"
proof (cases "fst p")
  case (Normal a)
  show ?thesis
  proof (cases "fst (f a)")
    case (Normal b)
    then show ?thesis
      using \<open>fst p = Normal a\<close> by (simp add: bind_p_Normal case_prod_beta)
  next
    case (Throw x)
    then show ?thesis
      using \<open>fst p = Normal a\<close> by (simp add: bind_p_Normal bind_p_Throw)
  next
    case Abort
    then show ?thesis
      using \<open>fst p = Normal a\<close> by (simp add: bind_p_Normal bind_p_Abort)
  qed
next
  case (Throw x)
  then show ?thesis by (simp add: bind_p_Throw)
next
  case Abort
  then show ?thesis by (simp add: bind_p_Abort)
qed

lemma all_events_bind:
  "all_events P p \<Longrightarrow> (\<And>a. all_events P (f a)) \<Longrightarrow> all_events P (bind_p p f)"
  by (cases "fst p") (auto simp: all_events_def bind_p_Normal bind_p_Throw bind_p_Abort)

lemma all_events_return [simp]: "all_events P (return_p a)"
  by (simp add: all_events_def return_p_def)

lemma all_events_abort [simp]: "all_events P abort_p"
  by (simp add: all_events_def abort_p_def)

lemma all_events_emit [simp]: "all_events P (emit e) \<longleftrightarrow> P e"
  by (simp add: all_events_def emit_def)

lemma all_events_call [simp]: "all_events P (call E c) \<longleftrightarrow> P (Vk c)"
  by (simp add: all_events_def call_def)

lemma all_events_call_void [simp]: "all_events P (call_void c) \<longleftrightarrow> P (Vk c)"
  by (simp add: all_events_def call_void_def)

lemma all_events_seq: "(\<And>p. p \<in> set ps \<Longrightarrow> all_events P p) \<Longrightarrow> all_events P (seq ps)"
  by (induction ps) (simp_all add: all_events_bind)

lemma all_events_VK_CHECK_RESULT:
  "all_events P f \<Longrightarrow> (\<And>fmt args. P (Printf fmt args)) \<Longrightarrow> all_events P (VK_CHECK_RESULT nd l f)"
  unfolding VK_CHECK_RESULT_def assert_c_def
  by (intro all_events_bind) (simp_all add: all_events_bind)

lemma all_events_findMemoryType [simp]: "all_events P (findMemoryType E tb pr)"
  by (simp add: findMemoryType_def split: option.splits)

lemma createSeedBuffer_events:
  "all_events (\<lambda>e. \<not> is_clock_read e \<and> \<not> is_dispatch_or_submit e \<and> \<not> is_descriptor_update e) (createSeedBuffer E app)"
  unfolding createSeedBuffer_def Let_def
  by (intro all_events_bind all_events_VK_CHECK_RESULT) simp_all

lemma createDescriptorSetLayout_events:
  "all_events (\<lambda>e. \<not> is_clock_read e \<and> \<not> is_dispatch_or_submit e \<and> \<not> is_descriptor_update e) (createDescriptorSetLayout E app)"
  unfolding createDescriptorSetLayout_def Let_def
  by (intro all_events_bind all_events_VK_CHECK_RESULT) simp_all

lemma createDescriptorSet_events:
  "all_events (\<lambda>e. \<not> is_clock_read e \<and> \<not> is_dispatch_or_submit e) (createDescriptorSet E app)"
  unfolding createDescriptorSet_def Let_def
  by (intro all_events_bind all_events_VK_CHECK_RESULT) simp_all


lemma runCommandBuffer_eq:
  "runCommandBuffer E (new_ComputeApplication u\<lparr>bufferSize := b\<rparr>) =
     (fst (omitted E otherCommandBufferOperations),
      [ClockNow (clock_count E),
       Vk (vkMapMemory seedBufferMemory 0 4 0),
       Memcpy (if vkResultOf E (vkMapMemory seedBufferMemory 0 4 0) = VK_SUCCESS
               then Mapped seedBufferMemory 0 else Indeterminate)
              (ucast (clock_count E)) 4,
       Vk (vkUnmapMemory seedBufferMemory)] @ snd (omitted E otherCommandBufferOperations))"
  by (simp add: runCommandBuffer_def high_resolution_clock_now_def call_def emit_def call_void_def
      generateSeed_def
      new_ComputeApplication_def sizeof_uint32_t_def Let_def case_prod_beta)

lemma run_split:
  "snd (run E app0) =
     bind_p (seq (setup_methods E (app0\<lparr>bufferSize := run_bufferSize\<rparr>)))
       (\<lambda>_. bind_p (runCommandBuffer E (app0\<lparr>bufferSize := run_bufferSize\<rparr>))
       (\<lambda>_. seq [omitted E saveRenderedImage, omitted E cleanup]))"
  by (simp add: run_def setup_methods_def Let_def bind_p_assoc)

lemma all_events_mono: "all_events P p \<Longrightarrow> (\<And>e. P e \<Longrightarrow> Q e) \<Longrightarrow> all_events Q p"
  by (auto simp: all_events_def)

lemma setup_methods_quiet:
  assumes no_clock: "\<forall>m. \<forall>e\<in>set (snd (omitted E m)). \<not> is_clock_read e"
    and no_early: "\<forall>m. m \<notin> {otherCommandBufferOperations, saveRenderedImage, cleanup} \<longrightarrow>
                    (\<forall>e\<in>set (snd (omitted E m)). \<not> is_dispatch_or_submit e)"
  shows "all_events (\<lambda>e. \<not> is_clock_read e \<and> \<not> is_dispatch_or_submit e) (seq (setup_methods E app))"
proof (rule all_events_seq)
  fix p
  assume "p \<in> set (setup_methods E app)"
  then consider
      (om) m where "m \<notin> {otherCommandBufferOperations, saveRenderedImage, cleanup}" "p = omitted E m"
    | (sb) "p = createSeedBuffer E app"
    | (sl) "p = createDescriptorSetLayout E app"
    | (ds) "p = createDescriptorSet E app"
    by (auto simp: setup_methods_def)
  then show "all_events (\<lambda>e. \<not> is_clock_read e \<and> \<not> is_dispatch_or_submit e) p"
  proof cases
    case om
    with no_clock no_early show ?thesis
      by (simp add: all_events_def)
  next
    case sb
    then show ?thesis
      by (auto intro: all_events_mono [OF createSeedBuffer_events])
  next
    case sl
    then show ?thesis
      by (auto intro: all_events_mono [OF createDescriptorSetLayout_events])
  next
    case ds
    then show ?thesis
      by (auto intro: all_events_mono [OF createDescriptorSet_events])
  qed
qed

lemma bind_p_stops_events:
  fixes p :: "unit proc"
  shows "fst p \<noteq> Normal () \<Longrightarrow> snd (bind_p p f) = snd p"
  by (cases "fst p") (simp_all add: bind_p_Throw bind_p_Abort)

lemma bind_p_stops_outcome:
  fixes p :: "unit proc"
  shows "fst p \<noteq> Normal () \<Longrightarrow> fst (bind_p p f) \<noteq> Normal b"
  by (cases "fst p") (simp_all add: bind_p_Throw bind_p_Abort)

lemma VK_CHECK_RESULT_call:
  "VK_CHECK_RESULT nd l (call E c) =
     (if vkResultOf E c = VK_SUCCESS then (Normal (), [Vk c])
      else (if nd then Normal () else Abort,
            [Vk c, Printf ''Fatal: VkResult is %d in %s at line %d\<newline>''
                     [ArgInt (vkResultOf E c), ArgStr FILE, ArgInt (int l)]]))"
  by (simp add: VK_CHECK_RESULT_def call_def emit_def assert_c_def return_p_def abort_p_def)

lemma filter_bind_p:
  "filter P (snd (bind_p p f)) =
     filter P (snd p) @ (case fst p of Normal a \<Rightarrow> filter P (snd (f a)) | Throw x \<Rightarrow> [] | Abort \<Rightarrow> [])"
  by (cases "fst p") (simp_all add: bind_p_Normal bind_p_Throw bind_p_Abort)

lemma fst_bind_p:
  "fst (bind_p p f) = (case fst p of Normal a \<Rightarrow> fst (f a) | Throw x \<Rightarrow> Throw x | Abort \<Rightarrow> Abort)"
  by (cases "fst p") (simp_all add: bind_p_Normal bind_p_Throw bind_p_Abort)

lemma filter_all_events: "all_events (\<lambda>e. \<not> P e) p \<Longrightarrow> filter P (snd p) = []"
  by (simp add: all_events_def)

lemma all_events_clock [simp]: "all_events P (high_resolution_clock_now E) \<longleftrightarrow> P (ClockNow (clock_count E))"
  by (simp add: all_events_def high_resolution_clock_now_def)

lemma runCommandBuffer_no_update:
  assumes "\<forall>m. \<forall>e\<in>set (snd (omitted E m)). \<not> is_descriptor_update e"
  shows "all_events (\<lambda>e. \<not> is_descriptor_update e) (runCommandBuffer E app)"
proof -
  have "all_events (\<lambda>e. \<not> is_descriptor_update e) (omitted E otherCommandBufferOperations)"
    using assms by (simp add: all_events_def)
  then show ?thesis
    unfolding runCommandBuffer_def Let_def
    by (intro all_events_bind) simp_all
qed

lemma createDescriptorSetLayout_call:
  "\<exists>rest. snd (createDescriptorSetLayout E app) =
      Vk (vkCreateDescriptorSetLayout
            \<lparr>lci_sType = VK_STRUCTURE_TYPE_DESCRIPTOR_SET_LAYOUT_CREATE_INFO,
             bindingCount = 2,
             pBindings =
               [\<lparr>binding = 0, descriptorType = VK_DESCRIPTOR_TYPE_STORAGE_BUFFER,
                 descriptorCount = 1, stageFlags = VK_SHADER_STAGE_COMPUTE_BIT\<rparr>,
                \<lparr>binding = 1, descriptorType = VK_DESCRIPTOR_TYPE_UNIFORM_BUFFER,
                 descriptorCount = 1, stageFlags = VK_SHADER_STAGE_COMPUTE_BIT\<rparr>]\<rparr>
            descriptorSetLayout) # rest \<and>
      (\<forall>e\<in>set rest. \<exists>fmt args. e = Printf fmt args)"
  by (simp add: createDescriptorSetLayout_def layout_bindings_def VK_CHECK_RESULT_call Let_def)

lemma createDescriptorSet_update:
  "filter is_descriptor_update (snd (createDescriptorSet E app)) =
     (if fst (createDescriptorSet E app) = Normal ()
      then [Vk (vkUpdateDescriptorSets 2 (descriptor_writes app) 0)] else [])"
  by (simp add: createDescriptorSet_def VK_CHECK_RESULT_call call_void_def Let_def
      filter_bind_p fst_bind_p)

lemma descriptor_writes_run:
  "descriptor_writes (new_ComputeApplication u\<lparr>bufferSize := run_bufferSize\<rparr>) =
     [\<lparr>w_sType = VK_STRUCTURE_TYPE_WRITE_DESCRIPTOR_SET, dstSet = descriptorSet,
       dstBinding = 0, dstArrayElement = 0,
       w_descriptorType = VK_DESCRIPTOR_TYPE_STORAGE_BUFFER, w_descriptorCount = 1,
       pBufferInfo = \<lparr>bi_buffer = buffer, bi_offset = 0, bi_range = 122880000\<rparr>\<rparr>,
      \<lparr>w_sType = VK_STRUCTURE_TYPE_WRITE_DESCRIPTOR_SET, dstSet = descriptorSet,
       dstBinding = 1, dstArrayElement = 0,
       w_descriptorType = VK_DESCRIPTOR_TYPE_UNIFORM_BUFFER, w_descriptorCount = 1,
       pBufferInfo = \<lparr>bi_buffer = seedBuffer, bi_offset = 0, bi_range = 4\<rparr>\<rparr>]"
  by (simp add: descriptor_writes_def new_ComputeApplication_def run_bufferSize_def
      sizeof_Pixel_def sizeof_float_def sizeof_uint32_t_def WIDTH_def HEIGHT_def Let_def)

lemma run_updates:
  assumes quiet: "\<forall>m. \<forall>e\<in>set (snd (omitted E m)). \<not> is_descriptor_update e"
  shows "filter is_descriptor_update (snd (snd (run E app0))) =
           (if fst (seq [omitted E createInstance, omitted E findPhysicalDevice,
                         omitted E createDevice, omitted E createBuffer,
                         createSeedBuffer E (app0\<lparr>bufferSize := run_bufferSize\<rparr>),
                         createDescriptorSetLayout E (app0\<lparr>bufferSize := run_bufferSize\<rparr>)]) = Normal () \<and>
               fst (createDescriptorSet E (app0\<lparr>bufferSize := run_bufferSize\<rparr>)) = Normal ()
            then [Vk (vkUpdateDescriptorSets 2 (descriptor_writes (app0\<lparr>bufferSize := run_bufferSize\<rparr>)) 0)]
            else [])"
    and "fst (snd (run E app0)) = Normal () \<Longrightarrow>
           fst (seq [omitted E createInstance, omitted E findPhysicalDevice,
                     omitted E createDevice, omitted E createBuffer,
                     createSeedBuffer E (app0\<lparr>bufferSize := run_bufferSize\<rparr>),
                     createDescriptorSetLayout E (app0\<lparr>bufferSize := run_bufferSize\<rparr>)]) = Normal () \<and>
           fst (createDescriptorSet E (app0\<lparr>bufferSize := run_bufferSize\<rparr>)) = Normal ()"
proof -
  let ?app = "app0\<lparr>bufferSize := run_bufferSize\<rparr>"
  let ?as = "[omitted E createInstance, omitted E findPhysicalDevice,
              omitted E createDevice, omitted E createBuffer,
              createSeedBuffer E ?app, createDescriptorSetLayout E ?app]"
  let ?cs = "[omitted E createComputePipeline, omitted E createCommandBuffer,
              runCommandBuffer E ?app, omitted E saveRenderedImage, omitted E cleanup]"
  let ?B = "createDescriptorSet E ?app"
  have run_eq: "snd (run E app0) = bind_p (seq ?as) (\<lambda>_. bind_p ?B (\<lambda>_. seq ?cs))"
    by (simp add: run_def Let_def bind_p_assoc)
  have om: "all_events (\<lambda>e. \<not> is_descriptor_update e) (omitted E m)" for m
    using quiet by (simp add: all_events_def)
  have "all_events (\<lambda>e. \<not> is_descriptor_update e) (seq ?as)"
    by (rule all_events_seq)
       (auto intro: om all_events_mono [OF createSeedBuffer_events]
                    all_events_mono [OF createDescriptorSetLayout_events])
  then have A: "filter is_descriptor_update (snd (seq ?as)) = []"
    by (rule filter_all_events)
  have "all_events (\<lambda>e. \<not> is_descriptor_update e) (seq ?cs)"
    by (rule all_events_seq) (auto intro: om runCommandBuffer_no_update [OF quiet])
  then have C: "filter is_descriptor_update (snd (seq ?cs)) = []"
    by (rule filter_all_events)
  show "filter is_descriptor_update (snd (snd (run E app0))) =
           (if fst (seq ?as) = Normal () \<and> fst ?B = Normal ()
            then [Vk (vkUpdateDescriptorSets 2 (descriptor_writes ?app) 0)] else [])"
    unfolding run_eq
    by (simp only: filter_bind_p A C createDescriptorSet_update)
       (simp split: outcome.splits)
  show "fst (snd (run E app0)) = Normal () \<Longrightarrow> fst (seq ?as) = Normal () \<and> fst ?B = Normal ()"
    unfolding run_eq
    by (simp only: fst_bind_p) (simp split: outcome.splits)
qed

lemma example_run: "fst (snd (run example_world (new_ComputeApplication 0))) = Normal ()"
  by code_simp

lemma throwing_run:
  "snd (run (throwing_world t) (new_ComputeApplication 0)) =
     (Throw \<lparr>ex_type = t, what = ''could not find a device''\<rparr>, [])"
  by (simp add: run_def throwing_world_def example_world_def return_p_def throw_p_def)

lemma VK_CHECK_RESULT_debug_build_aborts:
  assumes "vkResultOf E c \<noteq> VK_SUCCESS"
  shows "VK_CHECK_RESULT False l (call E c) =
           (Abort, [Vk c, Printf ''Fatal: VkResult is %d in %s at line %d\<newline>''
                            [ArgInt (vkResultOf E c), ArgStr FILE, ArgInt (int l)]])"
  using assms by (simp add: VK_CHECK_RESULT_call)

section \<open>The fatal-error macro\<close>

text \<open>
  C1: for every Vulkan call wrapped by \<open>VK_CHECK_RESULT\<close>, a non-success status ends the
  process right after the status, file and line are logged; execution never continues
  past a failed wrapped call. The macro ends the process with \<open>assert\<close>, which a build
  with \<open>NDEBUG\<close> compiles away. In such a build, when \<open>vkCreateBuffer\<close> fails with
  \<open>VK_ERROR_OUT_OF_DEVICE_MEMORY\<close>, \<open>createSeedBuffer\<close> logs the failure, goes on to
  make its three remaining Vulkan calls, and returns normally.
\<close>

theorem release_build_continues_after_failed_call:
  "createSeedBuffer release_world_out_of_memory (new_ComputeApplication 0) =
     (Normal (),
      [Vk (vkCreateBuffer
             \<lparr>bci_sType = VK_STRUCTURE_TYPE_BUFFER_CREATE_INFO, bci_size = 4,
              bci_usage = VK_BUFFER_USAGE_UNIFORM_BUFFER_BIT,
              bci_sharingMode = VK_SHARING_MODE_EXCLUSIVE\<rparr> seedBuffer),
       Printf ''Fatal: VkResult is %d in %s at line %d\<newline>''
         [ArgInt VK_ERROR_OUT_OF_DEVICE_MEMORY, ArgStr ''src/main.cpp'', ArgInt 89],
       Vk (vkGetBufferMemoryRequirements seedBuffer),
       Vk (vkAllocateMemory
             \<lparr>mai_sType = VK_STRUCTURE_TYPE_MEMORY_ALLOCATE_INFO, mai_allocationSize = 256,
              mai_memoryTypeIndex = 1\<rparr> seedBufferMemory),
       Vk (vkBindBufferMemory seedBuffer seedBufferMemory 0)])"
  by (simp add: createSeedBuffer_def VK_CHECK_RESULT_call release_world_out_of_memory_def
      example_world_def new_ComputeApplication_def sizeof_uint32_t_def call_void_def
      findMemoryType_def return_p_def FILE_def Let_def
      VK_SUCCESS_def VK_ERROR_OUT_OF_DEVICE_MEMORY_def
      VK_MEMORY_PROPERTY_DEVICE_LOCAL_BIT_def
      VK_MEMORY_PROPERTY_HOST_VISIBLE_BIT_def VK_MEMORY_PROPERTY_HOST_COHERENT_BIT_def)

section \<open>The seed\<close>

lemma uint_generateSeed: "uint (generateSeed t) = sint t mod 2 ^ 32"
proof -
  have "uint (generateSeed t) = take_bit 32 (uint t)"
    by (simp add: generateSeed_def unsigned_ucast_eq)
  also have "\<dots> = take_bit 32 (take_bit 64 (sint t))"
    by (simp add: uint_sint)
  also have "\<dots> = take_bit 32 (sint t)"
    by simp
  finally show ?thesis
    by (simp add: take_bit_eq_mod)
qed

lemma generateSeed_eq_iff:
  "generateSeed t1 = generateSeed t2 \<longleftrightarrow> sint t1 mod 2 ^ 32 = sint t2 mod 2 ^ 32"
proof -
  have "generateSeed t1 = generateSeed t2 \<longleftrightarrow> uint (generateSeed t1) = uint (generateSeed t2)"
    by (simp add: word_uint_eq_iff)
  then show ?thesis
    by (simp only: uint_generateSeed)
qed

text \<open>
  C10: \<open>generateSeed\<close> returns the clock's tick count reduced modulo \<open>2 ^ 32\<close> (the signed
  64-bit count narrowed to an unsigned 32-bit integer); so two tick counts that are congruent
  modulo \<open>2 ^ 32\<close> give the same seed.
\<close>

theorem generateSeed_modulo:
  "uint (generateSeed t) = sint t mod 2 ^ 32 \<and>
   (sint t1 mod 2 ^ 32 = sint t2 mod 2 ^ 32 \<longrightarrow> generateSeed t1 = generateSeed t2)"
  using uint_generateSeed generateSeed_eq_iff by blast

theorem generateSeed_modulo_witness:
  "(1000 :: 64 word) \<noteq> 4294968296 \<and> sint (1000 :: 64 word) mod 2 ^ 32 = sint (4294968296 :: 64 word) mod 2 ^ 32
   \<and> generateSeed 1000 = generateSeed 4294968296 \<and> uint (generateSeed 4294968296) = 1000"
proof -
  have h: "sint (1000 :: 64 word) mod 2 ^ 32 = sint (4294968296 :: 64 word) mod 2 ^ 32"
    by simp
  have d: "(1000 :: 64 word) \<noteq> 4294968296" by simp
  have v: "sint (4294968296 :: 64 word) mod 2 ^ 32 = 1000" by simp
  from generateSeed_modulo [of 4294968296 1000 4294968296] h d v show ?thesis
    by presburger
qed

text \<open>
  C2, as stated: two invocations of \<open>generateSeed\<close> whose clock readings differ by at least
  one tick return different seeds. This fails for readings that are \<open>2 ^ 32\<close> ticks apart:
  the readings 1000 and 4294968296 give the same seed.
\<close>

theorem generateSeed_distinct_counterexample:
  "1 \<le> \<bar>sint (4294968296 :: 64 word) - sint (1000 :: 64 word)\<bar> \<and>
   generateSeed 1000 = generateSeed 4294968296"
  by (simp add: generateSeed_def)

text \<open>
  C2, amended: two invocations of \<open>generateSeed\<close> whose clock readings differ by at least
  one tick, and by a number of ticks that is not a multiple of \<open>2 ^ 32\<close>, return different
  seeds.
\<close>

theorem generateSeed_distinct:
  assumes "1 \<le> \<bar>sint t2 - sint t1\<bar>" and "\<not> 2 ^ 32 dvd (sint t2 - sint t1)"
  shows "generateSeed t1 \<noteq> generateSeed t2"
proof
  assume "generateSeed t1 = generateSeed t2"
  then have "sint t1 mod 2 ^ 32 = sint t2 mod 2 ^ 32"
    by (simp add: generateSeed_eq_iff)
  then have "2 ^ 32 dvd (sint t2 - sint t1)"
    by (metis mod_eq_dvd_iff)
  with assms(2) show False by simp
qed

theorem generateSeed_distinct_witness:
  "1 \<le> \<bar>sint (1001 :: 64 word) - sint (1000 :: 64 word)\<bar> \<and>
   \<not> 2 ^ 32 dvd (sint (1001 :: 64 word) - sint (1000 :: 64 word)) \<and>
   generateSeed 1000 \<noteq> generateSeed 1001"
proof -
  have a: "1 \<le> \<bar>sint (1001 :: 64 word) - sint (1000 :: 64 word)\<bar>" by simp
  have b: "\<not> 2 ^ 32 dvd (sint (1001 :: 64 word) - sint (1000 :: 64 word))" by simp
  from generateSeed_distinct [OF a b] a b show ?thesis by blast
qed

section \<open>The size of the pixel buffer\<close>

text \<open>
  C8: the size of the pixel output buffer, the member \<open>bufferSize\<close> as \<open>run\<close> leaves it,
  is width times height times the size of a \<open>Pixel\<close>, a \<open>Pixel\<close> being four packed
  floating-point channels; with width 3200 and height 2400 this is 3200 * 2400 * 16 bytes
  (the product fits the 32-bit member). It is the range of the pixel buffer \<open>buffer\<close> that
  \<open>createDescriptorSet\<close> binds to slot 0 for the object that \<open>run\<close> passes on.
\<close>

theorem bufferSize_value:
  "uint (bufferSize (fst (run E app0))) = WIDTH * HEIGHT * int sizeof_Pixel \<and>
   sizeof_Pixel = 4 * sizeof_float \<and>
   uint (bufferSize (fst (run E app0))) = 3200 * 2400 * 16 \<and>
   bi_buffer (pBufferInfo (descriptor_writes (fst (run E app0)) ! 0)) = buffer \<and>
   uint (bi_range (pBufferInfo (descriptor_writes (fst (run E app0)) ! 0))) = 3200 * 2400 * 16"
  by (simp add: run_def Let_def descriptor_writes_def run_bufferSize_def sizeof_Pixel_def
      sizeof_float_def WIDTH_def HEIGHT_def)

section \<open>The memory-type search\<close>

lemma findMemoryType_from_None:
  "findMemoryType_from i tbl tb p = None \<longleftrightarrow>
     (\<forall>j<length tbl. \<not> (bit tb (i + j) \<and> (tbl ! j AND p) = p))"
proof (induction tbl arbitrary: i)
  case Nil
  then show ?case by simp
next
  case (Cons f fs)
  show ?case
    by (auto simp: Cons.IH less_Suc_eq_0_disj)
qed

lemma findMemoryType_from_Some:
  "findMemoryType_from i tbl tb p = Some k \<longleftrightarrow>
     (\<exists>j<length tbl. k = i + j \<and> bit tb k \<and> (tbl ! j AND p) = p \<and>
        (\<forall>j'<j. \<not> (bit tb (i + j') \<and> (tbl ! j' AND p) = p)))"
proof (induction tbl arbitrary: i)
  case Nil
  then show ?case by simp
next
  case (Cons f fs)
  show ?case
  proof (cases "bit tb i \<and> (f AND p) = p")
    case True
    then show ?thesis
      by (auto simp: All_less_Suc2 Ex_less_Suc2)
  next
    case False
    then have "findMemoryType_from i (f # fs) tb p = Some k \<longleftrightarrow>
        (\<exists>j<length fs. k = Suc i + j \<and> bit tb k \<and> (fs ! j AND p) = p \<and>
          (\<forall>j'<j. \<not> (bit tb (Suc i + j') \<and> (fs ! j' AND p) = p)))"
      by (auto simp: Cons.IH)
    also have "\<dots> \<longleftrightarrow>
        (\<exists>j<length (f # fs). k = i + j \<and> bit tb k \<and> ((f # fs) ! j AND p) = p \<and>
          (\<forall>j'<j. \<not> (bit tb (i + j') \<and> ((f # fs) ! j' AND p) = p)))"
      using False by (auto simp: All_less_Suc2 Ex_less_Suc2)
    finally show ?thesis .
  qed
qed

text \<open>
  C4: for every type bitmask and set of required property flags, \<open>findMemoryType\<close>
  returns the lowest index whose bit is set in the bitmask and whose property flags are a
  superset of the requested flags, and fails fatally exactly when no index qualifies.
\<close>

theorem findMemoryType_lowest_index:
  "(fst (findMemoryType E tb p) = Normal i \<longleftrightarrow>
      qualifies E tb p i \<and> (\<forall>j<i. \<not> qualifies E tb p j)) \<and>
   (fst (findMemoryType E tb p) = Abort \<longleftrightarrow> (\<forall>j. \<not> qualifies E tb p j))"
proof -
  have some: "findMemoryType_from 0 (memoryTypes E) tb p = Some i \<longleftrightarrow>
      qualifies E tb p i \<and> (\<forall>j<i. \<not> qualifies E tb p j)"
    by (auto simp: findMemoryType_from_Some qualifies_def)
  have none: "findMemoryType_from 0 (memoryTypes E) tb p = None \<longleftrightarrow> (\<forall>j. \<not> qualifies E tb p j)"
    by (auto simp: findMemoryType_from_None qualifies_def)
  show ?thesis
    using some none
    by (auto simp: findMemoryType_def return_p_def abort_p_def split: option.splits)
qed

theorem findMemoryType_lowest_index_witness:
  "fst (findMemoryType example_world 6 6) = Normal 1 \<and>
   qualifies example_world 6 6 1 \<and> qualifies example_world 6 6 2 \<and> \<not> qualifies example_world 6 6 0 \<and>
   fst (findMemoryType example_world 1 6) = Abort \<and> (\<forall>j. \<not> qualifies example_world 1 6 j)"
proof -
  have q1: "qualifies example_world 6 6 1"
    by (simp add: qualifies_def example_world_def VK_MEMORY_PROPERTY_DEVICE_LOCAL_BIT_def
        VK_MEMORY_PROPERTY_HOST_VISIBLE_BIT_def VK_MEMORY_PROPERTY_HOST_COHERENT_BIT_def)
  have q2: "qualifies example_world 6 6 2"
    by (simp add: qualifies_def example_world_def VK_MEMORY_PROPERTY_DEVICE_LOCAL_BIT_def
        VK_MEMORY_PROPERTY_HOST_VISIBLE_BIT_def VK_MEMORY_PROPERTY_HOST_COHERENT_BIT_def)
  have q0: "\<not> qualifies example_world 6 6 0"
    by (simp add: qualifies_def example_world_def VK_MEMORY_PROPERTY_DEVICE_LOCAL_BIT_def
        VK_MEMORY_PROPERTY_HOST_VISIBLE_BIT_def VK_MEMORY_PROPERTY_HOST_COHERENT_BIT_def)
  have low: "\<forall>j<1. \<not> qualifies example_world 6 6 j"
    using q0 by simp
  have none: "\<forall>j. \<not> qualifies example_world 1 6 j"
    by (auto simp: qualifies_def example_world_def bit_1_iff VK_MEMORY_PROPERTY_DEVICE_LOCAL_BIT_def
        VK_MEMORY_PROPERTY_HOST_VISIBLE_BIT_def VK_MEMORY_PROPERTY_HOST_COHERENT_BIT_def)
  from findMemoryType_lowest_index [of example_world 6 6 1] q1 low
  have a: "fst (findMemoryType example_world 6 6) = Normal 1" by blast
  from findMemoryType_lowest_index [of example_world 1 6 0] none
  have b: "fst (findMemoryType example_world 1 6) = Abort" by blast
  from a b q1 q2 q0 none show ?thesis by blast
qed

section \<open>The workgroup counts of the dispatch\<close>

text \<open>
  C5: for every width and height, the workgroup counts of the two-dimensional dispatch
  with workgroup size 32 are ceil(width / 32) and ceil(height / 32), and so 32 times each
  count is at least the width, respectively the height.
\<close>

theorem dispatch_group_counts:
  "fst (dispatchGroups width height) = \<lceil>real_of_int width / 32\<rceil> \<and>
   snd (dispatchGroups width height) = \<lceil>real_of_int height / 32\<rceil> \<and>
   width \<le> fst (dispatchGroups width height) * 32 \<and>
   height \<le> snd (dispatchGroups width height) * 32"
proof -
  have cover: "n \<le> \<lceil>real_of_int n / 32\<rceil> * 32" for n :: int
  proof -
    have "real_of_int n / 32 \<le> of_int \<lceil>real_of_int n / 32\<rceil>"
      by (rule le_of_int_ceiling)
    then have "real_of_int n \<le> real_of_int \<lceil>real_of_int n / 32\<rceil> * 32"
      by linarith
    then have "real_of_int n \<le> real_of_int (\<lceil>real_of_int n / 32\<rceil> * 32)"
      by simp
    then show ?thesis
      by (simp only: of_int_le_iff)
  qed
  show ?thesis
    using cover [of width] cover [of height]
    by (simp add: dispatchGroups_def groupCount_def WORKGROUP_SIZE_def)
qed

section \<open>The seed upload and the dispatch\<close>

text \<open>
  The memory that \<open>runCommandBuffer\<close> maps is allocated by \<open>createSeedBuffer\<close>, from a
  memory type that qualifies for the host-visible and host-coherent flags.
\<close>

lemma qualifies_index_small:
  assumes "qualifies E tb p i"
  shows "unat (word_of_nat i :: 32 word) = i"
proof -
  from assms have "bit tb i" by (simp add: qualifies_def)
  then have "i < 32"
    using bit_imp_le_length [of tb i] by simp
  then show ?thesis
    by (simp add: unat_of_nat)
qed

lemma findMemoryType_Normal:
  "fst (findMemoryType E tb p) = Normal i \<Longrightarrow> qualifies E tb p i"
  by (auto simp: findMemoryType_def findMemoryType_from_Some qualifies_def return_p_def abort_p_def
      split: option.splits)

lemma snd_findMemoryType [simp]: "snd (findMemoryType E tb p) = []"
  by (simp add: findMemoryType_def return_p_def abort_p_def split: option.splits)

lemma createSeedBuffer_host_visible:
  assumes "Vk (vkAllocateMemory info h) \<in> set (snd (createSeedBuffer E app))"
  shows "h = seedBufferMemory \<and>
         qualifies E (mr_memoryTypeBits (memoryRequirements E seedBuffer))
           (VK_MEMORY_PROPERTY_HOST_VISIBLE_BIT OR VK_MEMORY_PROPERTY_HOST_COHERENT_BIT)
           (unat (mai_memoryTypeIndex info))"
proof -
  let ?tb = "mr_memoryTypeBits (memoryRequirements E seedBuffer)"
  let ?p = "VK_MEMORY_PROPERTY_HOST_VISIBLE_BIT OR VK_MEMORY_PROPERTY_HOST_COHERENT_BIT"
  show ?thesis
  proof (cases "fst (findMemoryType E ?tb ?p)")
    case (Normal i)
    then have q: "qualifies E ?tb ?p i"
      by (rule findMemoryType_Normal)
    then have "unat (word_of_nat i :: 32 word) = i"
      by (rule qualifies_index_small)
    with q assms Normal show ?thesis
      by (auto simp: createSeedBuffer_def Let_def VK_CHECK_RESULT_call call_void_def
          bind_p_Normal bind_p_Abort bind_p_Throw split: if_splits)
  next
    case (Throw x)
    with assms show ?thesis
      by (auto simp: createSeedBuffer_def Let_def VK_CHECK_RESULT_call call_void_def
          bind_p_Normal bind_p_Abort bind_p_Throw split: if_splits)
  next
    case Abort
    with assms show ?thesis
      by (auto simp: createSeedBuffer_def Let_def VK_CHECK_RESULT_call call_void_def
          bind_p_Normal bind_p_Abort bind_p_Throw split: if_splits)
  qed
qed

text \<open>
  What the shown code settles about the upload, whatever the driver answers. The elided
  methods are parameters: suppose that none of them reads the clock and that those which
  \<open>run\<close> calls before \<open>runCommandBuffer\<close> do not record or submit a dispatch. Then every
  run that completes, reads the clock, or records or submits a dispatch has a trace of the
  form: events that are neither clock readings nor dispatches; the clock reading, the
  mapping of 4 bytes of the seed memory at offset 0, a copy of 4 bytes from the low 32 bits
  of that reading, the unmapping; events that are not clock readings. The copy goes to the
  mapped seed memory if the driver reports the mapping as successful.
\<close>

lemma seed_upload_trace:
  assumes no_clock: "\<forall>m. \<forall>e\<in>set (snd (omitted E m)). \<not> is_clock_read e"
    and no_early: "\<forall>m. m \<notin> {otherCommandBufferOperations, saveRenderedImage, cleanup} \<longrightarrow>
                    (\<forall>e\<in>set (snd (omitted E m)). \<not> is_dispatch_or_submit e)"
    and reached: "fst (snd (run E (new_ComputeApplication u))) = Normal () \<or>
                  (\<exists>e\<in>set (snd (snd (run E (new_ComputeApplication u)))). is_clock_read e \<or> is_dispatch_or_submit e)"
  shows "\<exists>before after dst.
           snd (snd (run E (new_ComputeApplication u))) =
             before @
             [ClockNow (clock_count E),
              Vk (vkMapMemory seedBufferMemory 0 4 0),
              Memcpy dst (ucast (clock_count E)) 4,
              Vk (vkUnmapMemory seedBufferMemory)] @ after \<and>
           (\<forall>e\<in>set before. \<not> is_clock_read e \<and> \<not> is_dispatch_or_submit e) \<and>
           (\<forall>e\<in>set after. \<not> is_clock_read e) \<and>
           (vkResultOf E (vkMapMemory seedBufferMemory 0 4 0) = VK_SUCCESS \<longrightarrow>
              dst = Mapped seedBufferMemory 0)"
proof -
  let ?app = "new_ComputeApplication u\<lparr>bufferSize := run_bufferSize\<rparr>"
  let ?pre = "seq (setup_methods E ?app)"
  let ?post = "seq [omitted E saveRenderedImage, omitted E cleanup]"
  let ?other = "omitted E otherCommandBufferOperations"
  let ?dst = "if vkResultOf E (vkMapMemory seedBufferMemory 0 4 0) = VK_SUCCESS
              then Mapped seedBufferMemory 0 else Indeterminate"
  let ?upload = "[ClockNow (clock_count E), Vk (vkMapMemory seedBufferMemory 0 4 0),
                  Memcpy ?dst (ucast (clock_count E)) 4,
                  Vk (vkUnmapMemory seedBufferMemory)]"
  have run_eq: "snd (run E (new_ComputeApplication u)) =
      bind_p ?pre (\<lambda>_. bind_p (runCommandBuffer E ?app) (\<lambda>_. ?post))"
    by (rule run_split)
  have pre: "all_events (\<lambda>e. \<not> is_clock_read e \<and> \<not> is_dispatch_or_submit e) ?pre"
    using no_clock no_early by (rule setup_methods_quiet)
  have post: "all_events (\<lambda>e. \<not> is_clock_read e) ?post"
    using no_clock by (intro all_events_seq) (auto simp: all_events_def)
  have other: "all_events (\<lambda>e. \<not> is_clock_read e) ?other"
    using no_clock by (simp add: all_events_def)
  have pre_normal: "fst ?pre = Normal ()"
  proof (rule ccontr)
    assume stop: "fst ?pre \<noteq> Normal ()"
    have "snd (snd (run E (new_ComputeApplication u))) = snd ?pre"
      unfolding run_eq using stop by (rule bind_p_stops_events)
    moreover have "fst (snd (run E (new_ComputeApplication u))) \<noteq> Normal ()"
      unfolding run_eq using stop by (rule bind_p_stops_outcome)
    ultimately show False
      using reached pre
      by (auto simp: all_events_def)
  qed
  obtain after where after: "snd (bind_p (runCommandBuffer E ?app) (\<lambda>_. ?post)) = ?upload @ after"
    and after_quiet: "\<forall>e\<in>set after. \<not> is_clock_read e"
  proof (cases "fst ?other = Normal ()")
    case True
    then have "snd (bind_p (runCommandBuffer E ?app) (\<lambda>_. ?post)) = ?upload @ (snd ?other @ snd ?post)"
      by (simp add: bind_p_Normal runCommandBuffer_eq case_prod_beta)
    moreover have "\<forall>e\<in>set (snd ?other @ snd ?post). \<not> is_clock_read e"
      using other post by (auto simp: all_events_def)
    ultimately show ?thesis by (rule that)
  next
    case False
    then have "fst (runCommandBuffer E ?app) \<noteq> Normal ()"
      by (simp add: runCommandBuffer_eq)
    then have "snd (bind_p (runCommandBuffer E ?app) (\<lambda>_. ?post)) = snd (runCommandBuffer E ?app)"
      by (rule bind_p_stops_events)
    then have "snd (bind_p (runCommandBuffer E ?app) (\<lambda>_. ?post)) = ?upload @ snd ?other"
      by (simp only: runCommandBuffer_eq snd_conv)
    moreover have "\<forall>e\<in>set (snd ?other). \<not> is_clock_read e"
      using other by (simp add: all_events_def)
    ultimately show ?thesis by (rule that)
  qed
  have "snd (snd (run E (new_ComputeApplication u))) = snd ?pre @ ?upload @ after"
    using pre_normal after by (simp add: run_eq bind_p_Normal)
  moreover have "\<forall>e\<in>set (snd ?pre). \<not> is_clock_read e \<and> \<not> is_dispatch_or_submit e"
    using pre by (simp add: all_events_def)
  moreover have "vkResultOf E (vkMapMemory seedBufferMemory 0 4 0) = VK_SUCCESS \<longrightarrow>
      ?dst = Mapped seedBufferMemory 0"
    by simp
  ultimately show ?thesis
    using after_quiet by blast
qed


section \<open>The descriptor set layout and the descriptor set\<close>

text \<open>
  C7: the descriptor set layout declares exactly two bindings, slot 0 a storage buffer
  (read and written by the shader, the pixel output) and slot 1 a uniform buffer (read-only,
  the seed), both with the compute stage as their only stage; the one descriptor set is
  populated once, with two writes that tie slot 0 to \<open>buffer\<close> and slot 1 to
  \<open>seedBuffer\<close>, and is never updated again. The elided methods are parameters, assumed
  not to call \<open>vkUpdateDescriptorSets\<close>: then the descriptor updates of a run are either
  none (the run stopped earlier) or exactly that one call, and exactly that one call when
  the run completes.
\<close>

theorem descriptor_bindings_static:
  assumes quiet: "\<forall>m. \<forall>e\<in>set (snd (omitted E m)). \<not> is_descriptor_update e"
  shows
    "(\<exists>rest. snd (createDescriptorSetLayout E app) =
        Vk (vkCreateDescriptorSetLayout
              \<lparr>lci_sType = VK_STRUCTURE_TYPE_DESCRIPTOR_SET_LAYOUT_CREATE_INFO,
               bindingCount = 2,
               pBindings =
                 [\<lparr>binding = 0, descriptorType = VK_DESCRIPTOR_TYPE_STORAGE_BUFFER,
                   descriptorCount = 1, stageFlags = VK_SHADER_STAGE_COMPUTE_BIT\<rparr>,
                  \<lparr>binding = 1, descriptorType = VK_DESCRIPTOR_TYPE_UNIFORM_BUFFER,
                   descriptorCount = 1, stageFlags = VK_SHADER_STAGE_COMPUTE_BIT\<rparr>]\<rparr>
              descriptorSetLayout) # rest \<and>
        (\<forall>e\<in>set rest. \<exists>fmt args. e = Printf fmt args)) \<and>
     (filter is_descriptor_update (snd (snd (run E (new_ComputeApplication u)))) = [] \<or>
      filter is_descriptor_update (snd (snd (run E (new_ComputeApplication u)))) =
        [Vk (vkUpdateDescriptorSets 2
               [\<lparr>w_sType = VK_STRUCTURE_TYPE_WRITE_DESCRIPTOR_SET, dstSet = descriptorSet,
                 dstBinding = 0, dstArrayElement = 0,
                 w_descriptorType = VK_DESCRIPTOR_TYPE_STORAGE_BUFFER, w_descriptorCount = 1,
                 pBufferInfo = \<lparr>bi_buffer = buffer, bi_offset = 0, bi_range = 122880000\<rparr>\<rparr>,
                \<lparr>w_sType = VK_STRUCTURE_TYPE_WRITE_DESCRIPTOR_SET, dstSet = descriptorSet,
                 dstBinding = 1, dstArrayElement = 0,
                 w_descriptorType = VK_DESCRIPTOR_TYPE_UNIFORM_BUFFER, w_descriptorCount = 1,
                 pBufferInfo = \<lparr>bi_buffer = seedBuffer, bi_offset = 0, bi_range = 4\<rparr>\<rparr>]
               0)]) \<and>
     (fst (snd (run E (new_ComputeApplication u))) = Normal () \<longrightarrow>
      filter is_descriptor_update (snd (snd (run E (new_ComputeApplication u)))) =
        [Vk (vkUpdateDescriptorSets 2
               [\<lparr>w_sType = VK_STRUCTURE_TYPE_WRITE_DESCRIPTOR_SET, dstSet = descriptorSet,
                 dstBinding = 0, dstArrayElement = 0,
                 w_descriptorType = VK_DESCRIPTOR_TYPE_STORAGE_BUFFER, w_descriptorCount = 1,
                 pBufferInfo = \<lparr>bi_buffer = buffer, bi_offset = 0, bi_range = 122880000\<rparr>\<rparr>,
                \<lparr>w_sType = VK_STRUCTURE_TYPE_WRITE_DESCRIPTOR_SET, dstSet = descriptorSet,
                 dstBinding = 1, dstArrayElement = 0,
                 w_descriptorType = VK_DESCRIPTOR_TYPE_UNIFORM_BUFFER, w_descriptorCount = 1,
                 pBufferInfo = \<lparr>bi_buffer = seedBuffer, bi_offset = 0, bi_range = 4\<rparr>\<rparr>]
               0)])"
proof -
  note upd = run_updates(1) [OF quiet, of "new_ComputeApplication u", unfolded descriptor_writes_run]
  note fin = run_updates(2) [OF quiet, of "new_ComputeApplication u"]
  show ?thesis
  proof (intro conjI impI)
    show "\<exists>rest. snd (createDescriptorSetLayout E app) =
        Vk (vkCreateDescriptorSetLayout
              \<lparr>lci_sType = VK_STRUCTURE_TYPE_DESCRIPTOR_SET_LAYOUT_CREATE_INFO,
               bindingCount = 2,
               pBindings =
                 [\<lparr>binding = 0, descriptorType = VK_DESCRIPTOR_TYPE_STORAGE_BUFFER,
                   descriptorCount = 1, stageFlags = VK_SHADER_STAGE_COMPUTE_BIT\<rparr>,
                  \<lparr>binding = 1, descriptorType = VK_DESCRIPTOR_TYPE_UNIFORM_BUFFER,
                   descriptorCount = 1, stageFlags = VK_SHADER_STAGE_COMPUTE_BIT\<rparr>]\<rparr>
              descriptorSetLayout) # rest \<and>
        (\<forall>e\<in>set rest. \<exists>fmt args. e = Printf fmt args)"
      by (rule createDescriptorSetLayout_call)
  next
    show "filter is_descriptor_update (snd (snd (run E (new_ComputeApplication u)))) = [] \<or>
      filter is_descriptor_update (snd (snd (run E (new_ComputeApplication u)))) =
        [Vk (vkUpdateDescriptorSets 2
               [\<lparr>w_sType = VK_STRUCTURE_TYPE_WRITE_DESCRIPTOR_SET, dstSet = descriptorSet,
                 dstBinding = 0, dstArrayElement = 0,
                 w_descriptorType = VK_DESCRIPTOR_TYPE_STORAGE_BUFFER, w_descriptorCount = 1,
                 pBufferInfo = \<lparr>bi_buffer = buffer, bi_offset = 0, bi_range = 122880000\<rparr>\<rparr>,
                \<lparr>w_sType = VK_STRUCTURE_TYPE_WRITE_DESCRIPTOR_SET, dstSet = descriptorSet,
                 dstBinding = 1, dstArrayElement = 0,
                 w_descriptorType = VK_DESCRIPTOR_TYPE_UNIFORM_BUFFER, w_descriptorCount = 1,
                 pBufferInfo = \<lparr>bi_buffer = seedBuffer, bi_offset = 0, bi_range = 4\<rparr>\<rparr>]
               0)]"
      by (simp only: upd split: if_splits) simp
  next
    assume "fst (snd (run E (new_ComputeApplication u))) = Normal ()"
    from fin [OF this]
    show "filter is_descriptor_update (snd (snd (run E (new_ComputeApplication u)))) =
        [Vk (vkUpdateDescriptorSets 2
               [\<lparr>w_sType = VK_STRUCTURE_TYPE_WRITE_DESCRIPTOR_SET, dstSet = descriptorSet,
                 dstBinding = 0, dstArrayElement = 0,
                 w_descriptorType = VK_DESCRIPTOR_TYPE_STORAGE_BUFFER, w_descriptorCount = 1,
                 pBufferInfo = \<lparr>bi_buffer = buffer, bi_offset = 0, bi_range = 122880000\<rparr>\<rparr>,
                \<lparr>w_sType = VK_STRUCTURE_TYPE_WRITE_DESCRIPTOR_SET, dstSet = descriptorSet,
                 dstBinding = 1, dstArrayElement = 0,
                 w_descriptorType = VK_DESCRIPTOR_TYPE_UNIFORM_BUFFER, w_descriptorCount = 1,
                 pBufferInfo = \<lparr>bi_buffer = seedBuffer, bi_offset = 0, bi_range = 4\<rparr>\<rparr>]
               0)]"
      by (simp add: upd)
  qed
qed

theorem descriptor_bindings_static_witness:
  "fst (snd (run example_world (new_ComputeApplication 0))) = Normal () \<and>
   filter is_descriptor_update (snd (snd (run example_world (new_ComputeApplication 0)))) =
     [Vk (vkUpdateDescriptorSets 2
            [\<lparr>w_sType = VK_STRUCTURE_TYPE_WRITE_DESCRIPTOR_SET, dstSet = descriptorSet,
              dstBinding = 0, dstArrayElement = 0,
              w_descriptorType = VK_DESCRIPTOR_TYPE_STORAGE_BUFFER, w_descriptorCount = 1,
              pBufferInfo = \<lparr>bi_buffer = buffer, bi_offset = 0, bi_range = 122880000\<rparr>\<rparr>,
             \<lparr>w_sType = VK_STRUCTURE_TYPE_WRITE_DESCRIPTOR_SET, dstSet = descriptorSet,
              dstBinding = 1, dstArrayElement = 0,
              w_descriptorType = VK_DESCRIPTOR_TYPE_UNIFORM_BUFFER, w_descriptorCount = 1,
              pBufferInfo = \<lparr>bi_buffer = seedBuffer, bi_offset = 0, bi_range = 4\<rparr>\<rparr>]
            0)]"
proof -
  have quiet: "\<forall>m. \<forall>e\<in>set (snd (omitted example_world m)). \<not> is_descriptor_update e"
    by (simp add: example_world_def spec_otherCommandBufferOperations_def call_void_def return_p_def)
  have fin: "fst (snd (run example_world (new_ComputeApplication 0))) = Normal ()"
    by (rule example_run)
  from descriptor_bindings_static [OF quiet, of _ 0] fin show ?thesis
    by blast
qed

section \<open>The exit status\<close>

text \<open>
  C6: the process exits with status 0 when \<open>run\<close> completes, and with a non-zero failing
  status, after printing the message, when \<open>run\<close> throws \<open>std::runtime_error\<close> (or an
  exception derived from it).
\<close>

theorem main_exit_status:
  "(fst (snd (run E (new_ComputeApplication u))) = Normal () \<longrightarrow>
      fst (main E u) = Exit 0 \<and> snd (main E u) = snd (snd (run E (new_ComputeApplication u)))) \<and>
   (fst (snd (run E (new_ComputeApplication u))) = Throw x \<and> handler_matches ''std::runtime_error'' (ex_type x) \<longrightarrow>
      fst (main E u) = Exit EXIT_FAILURE \<and> EXIT_FAILURE \<noteq> 0 \<and>
      snd (main E u) = snd (snd (run E (new_ComputeApplication u))) @ [Printf ''%s\<newline>'' [ArgStr (what x)]])"
  by (cases "snd (run E (new_ComputeApplication u))")
     (auto simp: main_def EXIT_SUCCESS_def EXIT_FAILURE_def split: outcome.splits)

theorem main_exit_status_witness:
  "fst (snd (run example_world (new_ComputeApplication 0))) = Normal () \<and>
   fst (main example_world 0) = Exit 0 \<and>
   fst (snd (run (throwing_world std_runtime_error) (new_ComputeApplication 0))) =
     Throw \<lparr>ex_type = std_runtime_error, what = ''could not find a device''\<rparr> \<and>
   fst (main (throwing_world std_runtime_error) 0) = Exit 1 \<and>
   snd (main (throwing_world std_runtime_error) 0) =
     [Printf ''%s\<newline>'' [ArgStr ''could not find a device'']]"
proof -
  let ?x = "\<lparr>ex_type = std_runtime_error, what = ''could not find a device''\<rparr>"
  have a: "fst (snd (run example_world (new_ComputeApplication 0))) = Normal ()"
    by (rule example_run)
  have b: "fst (snd (run (throwing_world std_runtime_error) (new_ComputeApplication 0))) = Throw ?x"
    by (simp add: throwing_run)
  have c: "handler_matches ''std::runtime_error'' (ex_type ?x)"
    by (simp add: handler_matches_def std_runtime_error_def)
  have d: "snd (snd (run (throwing_world std_runtime_error) (new_ComputeApplication 0))) = []"
    by (simp add: throwing_run)
  from main_exit_status [of example_world 0] a
  have e: "fst (main example_world 0) = Exit 0"
    by blast
  from main_exit_status [of "throwing_world std_runtime_error" 0 ?x] b c
  have f: "fst (main (throwing_world std_runtime_error) 0) = Exit EXIT_FAILURE \<and>
      snd (main (throwing_world std_runtime_error) 0) =
        snd (snd (run (throwing_world std_runtime_error) (new_ComputeApplication 0))) @
        [Printf ''%s\<newline>'' [ArgStr (what ?x)]]"
    by blast
  from a b e f d show ?thesis
    by (simp add: EXIT_FAILURE_def)
qed

text \<open>
  C9: the handler in \<open>main\<close> turns into the failing exit status exactly the exceptions whose
  type is \<open>std::runtime_error\<close> or has \<open>std::runtime_error\<close> as an unambiguous public
  base class, whoever declares the type; an exception of any other type thrown during
  \<open>run\<close> is not caught: it leaves \<open>main\<close>, nothing is printed and no exit status is
  returned.
\<close>

theorem main_catches_only_runtime_error:
  assumes "fst (snd (run E (new_ComputeApplication u))) = Throw x"
  shows "(type_name (ex_type x) = ''std::runtime_error'' \<or>
          ''std::runtime_error'' \<in> set (unambiguous_public_bases (ex_type x)) \<longrightarrow>
            fst (main E u) = Exit EXIT_FAILURE) \<and>
         (type_name (ex_type x) \<noteq> ''std::runtime_error'' \<and>
          ''std::runtime_error'' \<notin> set (unambiguous_public_bases (ex_type x)) \<longrightarrow>
            fst (main E u) = Terminate x \<and>
            snd (main E u) = snd (snd (run E (new_ComputeApplication u))))"
  using assms
  by (cases "snd (run E (new_ComputeApplication u))")
     (auto simp: main_def handler_matches_def split: outcome.splits)

theorem main_catches_only_runtime_error_witness:
  "fst (main (throwing_world std_runtime_error) 0) = Exit 1 \<and>
   fst (main (throwing_world std_overflow_error) 0) = Exit 1 \<and>
   fst (main (throwing_world DeviceLost) 0) = Exit 1 \<and>
   fst (main (throwing_world std_logic_error) 0) =
     Terminate \<lparr>ex_type = std_logic_error, what = ''could not find a device''\<rparr> \<and>
   fst (main (throwing_world PrivatelyDerived) 0) =
     Terminate \<lparr>ex_type = PrivatelyDerived, what = ''could not find a device''\<rparr> \<and>
   fst (main (throwing_world int_type) 0) =
     Terminate \<lparr>ex_type = int_type, what = ''could not find a device''\<rparr> \<and>
   snd (main (throwing_world int_type) 0) = []"
proof -
  have thrown: "fst (snd (run (throwing_world t) (new_ComputeApplication 0))) =
      Throw \<lparr>ex_type = t, what = ''could not find a device''\<rparr>" for t
    by (simp add: throwing_run)
  have silent: "snd (snd (run (throwing_world t) (new_ComputeApplication 0))) = []" for t
    by (simp add: throwing_run)
  have "fst (main (throwing_world std_runtime_error) 0) = Exit EXIT_FAILURE"
    using main_catches_only_runtime_error [OF thrown [of std_runtime_error]]
    by (simp add: std_runtime_error_def)
  moreover have "fst (main (throwing_world std_overflow_error) 0) = Exit EXIT_FAILURE"
    using main_catches_only_runtime_error [OF thrown [of std_overflow_error]]
    by (simp add: std_overflow_error_def)
  moreover have "fst (main (throwing_world DeviceLost) 0) = Exit EXIT_FAILURE"
    using main_catches_only_runtime_error [OF thrown [of DeviceLost]]
    by (simp add: DeviceLost_def)
  moreover have "fst (main (throwing_world std_logic_error) 0) =
      Terminate \<lparr>ex_type = std_logic_error, what = ''could not find a device''\<rparr>"
    using main_catches_only_runtime_error [OF thrown [of std_logic_error]]
    by (simp add: std_logic_error_def)
  moreover have "fst (main (throwing_world PrivatelyDerived) 0) =
      Terminate \<lparr>ex_type = PrivatelyDerived, what = ''could not find a device''\<rparr>"
    using main_catches_only_runtime_error [OF thrown [of PrivatelyDerived]]
    by (simp add: PrivatelyDerived_def)
  moreover have "fst (main (throwing_world int_type) 0) =
      Terminate \<lparr>ex_type = int_type, what = ''could not find a device''\<rparr> \<and>
      snd (main (throwing_world int_type) 0) = []"
    using main_catches_only_runtime_error [OF thrown [of int_type]] silent [of int_type]
    by (simp add: int_type_def)
  ultimately show ?thesis
    by (simp add: EXIT_FAILURE_def)
qed

end
